theory Spec2Isabelle
  imports Main "HOL-Library.Char_ord" "HOL-Library.Sublist"
begin

section \<open>The Stripe webhook middleware for Hono\<close>

text \<open>
  The repository has one function, \<^verbatim>\<open>stripeWebhookMiddleware(...args)\<close>. It checks the
  webhook secret \<^verbatim>\<open>args[0]\<close> against a regular expression and returns an asynchronous
  handler \<^verbatim>\<open>(c, next)\<close>. The handler reads the \<^verbatim>\<open>stripe-signature\<close> header, reads the
  request body, calls \<^verbatim>\<open>Stripe.webhooks.constructEventAsync(body, signature, ...args)\<close>,
  stores the event with \<^verbatim>\<open>c.set("event", event)\<close> and awaits \<^verbatim>\<open>next()\<close>.

  The embedding passes the request context explicitly, returns every exception as a
  value, and records the handler's calls on its collaborators (the context, the
  verifier, \<^verbatim>\<open>next\<close>) in the order in which the source makes them.
\<close>

subsection \<open>JavaScript values of the secret argument\<close>

text \<open>
  The secret is typed \<^verbatim>\<open>string\<close>; the test suite also passes \<^verbatim>\<open>null\<close> and
  \<^verbatim>\<open>undefined\<close> through a cast. \<^verbatim>\<open>RegExp.prototype.test\<close> converts its argument with
  ToString, which gives the texts \<^verbatim>\<open>"undefined"\<close> and \<^verbatim>\<open>"null"\<close> for these two.
\<close>

datatype jsval = JUndefined | JNull | JString string

fun ToString :: "jsval \<Rightarrow> string" where
  "ToString JUndefined = ''undefined''"
| "ToString JNull = ''null''"
| "ToString (JString s) = s"

subsection \<open>The regular expression of the secret\<close>

text \<open>
  The character class \<^verbatim>\<open>[a-zA-Z0-9]\<close>: three ranges of character codes. The
  expression has no flags, so the class is ASCII only.
\<close>

definition is_alnum :: "char \<Rightarrow> bool" where
  "is_alnum ch =
     ((CHR ''a'' \<le> ch \<and> ch \<le> CHR ''z'') \<or>
      (CHR ''A'' \<le> ch \<and> ch \<le> CHR ''Z'') \<or>
      (CHR ''0'' \<le> ch \<and> ch \<le> CHR ''9''))"

text \<open>
  \<^verbatim>\<open>/^whsec_[a-zA-Z0-9]+$/\<close>: anchored at both ends (without the \<^verbatim>\<open>m\<close> flag
  \<^verbatim>\<open>$\<close> matches at the end of the input only), the six characters \<^verbatim>\<open>whsec_\<close>,
  then one or more characters of the class and nothing else.
\<close>

definition secret_regex :: "string \<Rightarrow> bool" where
  "secret_regex s =
     (take 6 s = ''whsec_'' \<and> drop 6 s \<noteq> [] \<and> list_all is_alnum (drop 6 s))"

text \<open>\<^verbatim>\<open>/^whsec_[a-zA-Z0-9]+$/.test(v)\<close>\<close>

definition regex_test :: "jsval \<Rightarrow> bool" where
  "regex_test v = secret_regex (ToString v)"

subsection \<open>Exceptions and responses\<close>

text \<open>
  An \<^verbatim>\<open>HTTPException\<close> of the framework as the source constructs it: a status, and the
  options \<^verbatim>\<open>message\<close> and \<^verbatim>\<open>cause\<close>. The cause is whatever the verifier threw.
\<close>

record 'e http_exception =
  status :: nat
  message :: string
  cause :: "'e option"

text \<open>
  What an asynchronous call can throw: the \<^verbatim>\<open>Error\<close> of the constructor, an
  \<^verbatim>\<open>HTTPException\<close>, or a value \<open>'e\<close> thrown by a collaborator (the body reader, the
  verifier, the downstream handler).
\<close>

datatype 'e exn = Error string | HTTPException "'e http_exception" | Thrown 'e

record response =
  res_status :: nat
  res_body :: string

text \<open>
  \<^verbatim>\<open>HTTPException.getResponse()\<close> of the framework, for an exception built without a
  \<^verbatim>\<open>res\<close> option (the source never passes one): a response with the exception's status
  whose body is the exception's message. The framework answers a request whose handler
  threw an \<^verbatim>\<open>HTTPException\<close> with this response.
\<close>

definition getResponse :: "'e http_exception \<Rightarrow> response" where
  "getResponse h = \<lparr>res_status = status h, res_body = message h\<rparr>"

subsection \<open>The request context\<close>

text \<open>
  The parts of the framework's context \<^verbatim>\<open>c\<close>: \<^verbatim>\<open>c.req.header(name)\<close> (a string or
  \<^verbatim>\<open>undefined\<close>), the result of awaiting \<^verbatim>\<open>c.req.text()\<close> (the body, or the error
  with which the promise rejects), the variables of \<^verbatim>\<open>c.set\<close> and \<^verbatim>\<open>c.get\<close>, and
  everything else (the response included).
\<close>

record ('ev, 'e, 'x) ctx =
  req_header :: "string \<Rightarrow> string option"
  req_text :: "'e + string"
  var :: "string \<Rightarrow> 'ev option"
  other :: 'x

text \<open>The calls the handler makes on its collaborators.\<close>

datatype ('ev, 'o) effect =
    GetHeader string
  | ReadText
  | ConstructEvent string string jsval "'o list"
  | SetVar string 'ev
  | CallNext

text \<open>
  One execution of the handler: how its promise settles (\<open>Inr ()\<close> fulfilled,
  \<open>Inl\<close> rejected), the context afterwards, and the calls it made, in order.
\<close>

record ('ev, 'e, 'x, 'o) run =
  outcome :: "'e exn + unit"
  final :: "('ev, 'e, 'x) ctx"
  effects :: "('ev, 'o) effect list"

subsection \<open>The middleware\<close>

text \<open>
  The handler that \<^verbatim>\<open>stripeWebhookMiddleware\<close> returns, closed over \<^verbatim>\<open>args\<close> (the
  secret and the optional trailing arguments, forwarded as they are). The verifier
  \<^verbatim>\<open>Stripe.webhooks.constructEventAsync\<close> is a parameter: it returns the event or the
  error it rejects with. \<^verbatim>\<open>next\<close> takes the context and returns how it settles and the
  context it leaves.
\<close>

definition handler ::
  "(string \<Rightarrow> string \<Rightarrow> jsval \<Rightarrow> 'o list \<Rightarrow> 'e + 'ev) \<Rightarrow> jsval \<Rightarrow> 'o list \<Rightarrow>
   ('ev, 'e, 'x) ctx \<Rightarrow> (('ev, 'e, 'x) ctx \<Rightarrow> ('e exn + unit) \<times> ('ev, 'e, 'x) ctx) \<Rightarrow>
   ('ev, 'e, 'x, 'o) run" where
  "handler constructEventAsync secret opts c nxt =
     (let missing =
        \<lparr>outcome = Inl (HTTPException
             \<lparr>status = 400, message = ''Missing stripe-signature header'', cause = None\<rparr>),
         final = c,
         effects = [GetHeader ''stripe-signature'']\<rparr>
      in
      case req_header c ''stripe-signature'' of
        None \<Rightarrow> missing
      | Some signature \<Rightarrow>
          if signature = [] then missing
          else
            (case req_text c of
               Inl err \<Rightarrow>
                 \<lparr>outcome = Inl (Thrown err),
                  final = c,
                  effects = [GetHeader ''stripe-signature'', ReadText]\<rparr>
             | Inr body \<Rightarrow>
                 (case constructEventAsync body signature secret opts of
                    Inl reason \<Rightarrow>
                      \<lparr>outcome = Inl (HTTPException
                          \<lparr>status = 400,
                           message = ''Stripe webhook signature verification failed'',
                           cause = Some reason\<rparr>),
                       final = c,
                       effects = [GetHeader ''stripe-signature'', ReadText,
                                  ConstructEvent body signature secret opts]\<rparr>
                  | Inr event \<Rightarrow>
                      (let c' = c\<lparr>var := (var c)(''event'' \<mapsto> event)\<rparr>;
                           settled = nxt c'
                       in \<lparr>outcome = fst settled,
                           final = snd settled,
                           effects = [GetHeader ''stripe-signature'', ReadText,
                                      ConstructEvent body signature secret opts,
                                      SetVar ''event'' event, CallNext]\<rparr>))))"

text \<open>
  \<^verbatim>\<open>stripeWebhookMiddleware(...args)\<close>: throws the \<^verbatim>\<open>Error\<close> when the test of
  \<^verbatim>\<open>args[0]\<close> fails, and returns the handler otherwise.
\<close>

definition stripeWebhookMiddleware ::
  "(string \<Rightarrow> string \<Rightarrow> jsval \<Rightarrow> 'o list \<Rightarrow> 'e + 'ev) \<Rightarrow> jsval \<Rightarrow> 'o list \<Rightarrow>
   'e exn +
   (('ev, 'e, 'x) ctx \<Rightarrow> (('ev, 'e, 'x) ctx \<Rightarrow> ('e exn + unit) \<times> ('ev, 'e, 'x) ctx) \<Rightarrow>
    ('ev, 'e, 'x, 'o) run)" where
  "stripeWebhookMiddleware constructEventAsync secret opts =
     (if \<not> regex_test secret then Inl (Error ''Invalid webhook secret'')
      else Inr (handler constructEventAsync secret opts))"

subsection \<open>Fixtures\<close>

text \<open>
  The test suite's secret, a request body, and stand-ins for the collaborators: a
  verifier that accepts the signature \<^verbatim>\<open>valid\<close> and returns the body as the event, a
  downstream handler that returns, and one that throws.
\<close>

definition SECRET :: jsval where
  "SECRET = JString ''whsec_test''"

definition test_verifier :: "string \<Rightarrow> string \<Rightarrow> jsval \<Rightarrow> nat list \<Rightarrow> string + string" where
  "test_verifier body signature secret opts =
     (if signature = ''valid'' then Inr body else Inl ''No signatures found'')"

definition test_request :: "string option \<Rightarrow> (string, string, unit) ctx" where
  "test_request signature =
     \<lparr>req_header = (\<lambda>name. if name = ''stripe-signature'' then signature else None),
      req_text = Inr ''evt_test_webhook'',
      var = Map.empty,
      other = ()\<rparr>"

definition next_ok ::
  "(string, string, unit) ctx \<Rightarrow> (string exn + unit) \<times> (string, string, unit) ctx" where
  "next_ok c = (Inr (), c)"

definition next_throws ::
  "(string, string, unit) ctx \<Rightarrow> (string exn + unit) \<times> (string, string, unit) ctx" where
  "next_throws c = (Inl (Thrown ''downstream failure''), c)"

section \<open>Properties\<close>

subsection \<open>The regular expression\<close>

lemma secret_regex_iff:
  "secret_regex s \<longleftrightarrow> (\<exists>t. s = ''whsec_'' @ t \<and> t \<noteq> [] \<and> (\<forall>ch \<in> set t. is_alnum ch))"
proof
  assume m: "secret_regex s"
  have "s = take 6 s @ drop 6 s" by simp
  with m show "\<exists>t. s = ''whsec_'' @ t \<and> t \<noteq> [] \<and> (\<forall>ch \<in> set t. is_alnum ch)"
    unfolding secret_regex_def list_all_iff by metis
next
  assume "\<exists>t. s = ''whsec_'' @ t \<and> t \<noteq> [] \<and> (\<forall>ch \<in> set t. is_alnum ch)"
  then show "secret_regex s"
    by (auto simp: secret_regex_def list_all_iff)
qed

lemma regex_test_null_undefined_empty:
  "\<not> regex_test JNull" "\<not> regex_test JUndefined" "\<not> regex_test (JString [])"
  by (simp_all add: regex_test_def secret_regex_def)

lemma constructed_handler:
  "stripeWebhookMiddleware v secret opts = Inr step \<Longrightarrow>
     step = handler v secret opts \<and> regex_test secret"
  by (auto simp: stripeWebhookMiddleware_def split: if_splits)

subsection \<open>Construction\<close>

text \<open>
  C1, as stated: a secret that the regular expression \<^verbatim>\<open>^whsec_[a-zA-Z0-9]+$\<close> does not
  match makes the constructor throw a configuration error "invalid webhook secret". The
  constructor throws for such a secret, but the message of its error is
  "Invalid webhook secret", the text that the repository's test suite looks for; at the
  empty secret the error is not the one with the stated message.
\<close>

theorem C1_secret_validation_counterexample:
  "stripeWebhookMiddleware test_verifier (JString []) [] =
     (Inl (Error ''Invalid webhook secret'') ::
        string exn + ((string, string, unit) ctx \<Rightarrow> _ \<Rightarrow> (string, string, unit, nat) run)) \<and>
   stripeWebhookMiddleware test_verifier (JString []) [] \<noteq>
     (Inl (Error ''invalid webhook secret'') ::
        string exn + ((string, string, unit) ctx \<Rightarrow> _ \<Rightarrow> (string, string, unit, nat) run))"
  by (simp add: stripeWebhookMiddleware_def regex_test_def secret_regex_def)

text \<open>
  C1, amended. A secret that the regular expression \<^verbatim>\<open>^whsec_[a-zA-Z0-9]+$\<close> does not
  match makes the constructor throw the error "Invalid webhook secret", at construction,
  so that it returns no handler; the empty string, \<^verbatim>\<open>null\<close> and \<^verbatim>\<open>undefined\<close> are such
  secrets. A secret that matches makes it return a handler.
\<close>

theorem C1_secret_validation:
  "(\<not> secret_regex (ToString secret) \<longrightarrow>
      stripeWebhookMiddleware v secret opts = Inl (Error ''Invalid webhook secret'')) \<and>
   (secret_regex (ToString secret) \<longrightarrow>
      (\<exists>step. stripeWebhookMiddleware v secret opts = Inr step)) \<and>
   stripeWebhookMiddleware v (JString []) opts = Inl (Error ''Invalid webhook secret'') \<and>
   stripeWebhookMiddleware v JNull opts = Inl (Error ''Invalid webhook secret'') \<and>
   stripeWebhookMiddleware v JUndefined opts = Inl (Error ''Invalid webhook secret'')"
  by (simp add: stripeWebhookMiddleware_def regex_test_def secret_regex_def)

theorem C1_secret_validation_witness:
  "stripeWebhookMiddleware test_verifier (JString ''invalid'') [] =
     (Inl (Error ''Invalid webhook secret'') ::
        string exn + ((string, string, unit) ctx \<Rightarrow> _ \<Rightarrow> (string, string, unit, nat) run)) \<and>
   (\<exists>step :: (string, string, unit) ctx \<Rightarrow> _ \<Rightarrow> (string, string, unit, nat) run.
      stripeWebhookMiddleware test_verifier SECRET [] = Inr step)"
proof -
  have bad: "\<not> secret_regex (ToString (JString ''invalid''))"
    by (simp add: secret_regex_def)
  have good: "secret_regex (ToString SECRET)"
    by (simp add: SECRET_def secret_regex_def is_alnum_def)
  show ?thesis
    using C1_secret_validation [of "JString ''invalid''" test_verifier "[]"]
      C1_secret_validation [of SECRET test_verifier "[]"] bad good
    by blast
qed

subsection \<open>The branches of the handler\<close>

lemma handler_missing:
  "req_header c ''stripe-signature'' = None \<or> req_header c ''stripe-signature'' = Some [] \<Longrightarrow>
   handler v secret opts c nxt =
     \<lparr>outcome = Inl (HTTPException
        \<lparr>status = 400, message = ''Missing stripe-signature header'', cause = None\<rparr>),
      final = c,
      effects = [GetHeader ''stripe-signature'']\<rparr>"
  by (auto simp: handler_def)

lemma handler_body_error:
  "req_header c ''stripe-signature'' = Some sg \<Longrightarrow> sg \<noteq> [] \<Longrightarrow> req_text c = Inl err \<Longrightarrow>
   handler v secret opts c nxt =
     \<lparr>outcome = Inl (Thrown err),
      final = c,
      effects = [GetHeader ''stripe-signature'', ReadText]\<rparr>"
  by (simp add: handler_def)

lemma handler_rejected:
  "req_header c ''stripe-signature'' = Some sg \<Longrightarrow> sg \<noteq> [] \<Longrightarrow> req_text c = Inr body \<Longrightarrow>
   v body sg secret opts = Inl reason \<Longrightarrow>
   handler v secret opts c nxt =
     \<lparr>outcome = Inl (HTTPException
        \<lparr>status = 400, message = ''Stripe webhook signature verification failed'',
         cause = Some reason\<rparr>),
      final = c,
      effects = [GetHeader ''stripe-signature'', ReadText, ConstructEvent body sg secret opts]\<rparr>"
  by (simp add: handler_def)

lemma handler_verified:
  "req_header c ''stripe-signature'' = Some sg \<Longrightarrow> sg \<noteq> [] \<Longrightarrow> req_text c = Inr body \<Longrightarrow>
   v body sg secret opts = Inr event \<Longrightarrow>
   handler v secret opts c nxt =
     \<lparr>outcome = fst (nxt (c\<lparr>var := (var c)(''event'' \<mapsto> event)\<rparr>)),
      final = snd (nxt (c\<lparr>var := (var c)(''event'' \<mapsto> event)\<rparr>)),
      effects = [GetHeader ''stripe-signature'', ReadText, ConstructEvent body sg secret opts,
                 SetVar ''event'' event, CallNext]\<rparr>"
  by (simp add: handler_def Let_def)

lemma test_constructed:
  "stripeWebhookMiddleware test_verifier SECRET [] = Inr (handler test_verifier SECRET [])"
  by (simp add: stripeWebhookMiddleware_def regex_test_def SECRET_def secret_regex_def
      is_alnum_def)

lemma handler_cases:
  "(handler v secret opts c nxt =
      \<lparr>outcome = Inl (HTTPException
         \<lparr>status = 400, message = ''Missing stripe-signature header'', cause = None\<rparr>),
       final = c,
       effects = [GetHeader ''stripe-signature'']\<rparr> \<and>
    (req_header c ''stripe-signature'' = None \<or> req_header c ''stripe-signature'' = Some [])) \<or>
   (\<exists>sg err. req_header c ''stripe-signature'' = Some sg \<and> sg \<noteq> [] \<and>
      req_text c = Inl err \<and>
      handler v secret opts c nxt =
        \<lparr>outcome = Inl (Thrown err), final = c,
         effects = [GetHeader ''stripe-signature'', ReadText]\<rparr>) \<or>
   (\<exists>sg body reason. req_header c ''stripe-signature'' = Some sg \<and> sg \<noteq> [] \<and>
      req_text c = Inr body \<and> v body sg secret opts = Inl reason \<and>
      handler v secret opts c nxt =
        \<lparr>outcome = Inl (HTTPException
           \<lparr>status = 400, message = ''Stripe webhook signature verification failed'',
            cause = Some reason\<rparr>),
         final = c,
         effects = [GetHeader ''stripe-signature'', ReadText,
                    ConstructEvent body sg secret opts]\<rparr>) \<or>
   (\<exists>sg body event. req_header c ''stripe-signature'' = Some sg \<and> sg \<noteq> [] \<and>
      req_text c = Inr body \<and> v body sg secret opts = Inr event \<and>
      handler v secret opts c nxt =
        \<lparr>outcome = fst (nxt (c\<lparr>var := (var c)(''event'' \<mapsto> event)\<rparr>)),
         final = snd (nxt (c\<lparr>var := (var c)(''event'' \<mapsto> event)\<rparr>)),
         effects = [GetHeader ''stripe-signature'', ReadText,
                    ConstructEvent body sg secret opts, SetVar ''event'' event, CallNext]\<rparr>)"
proof (cases "req_header c ''stripe-signature''")
  case None
  then show ?thesis using handler_missing [of c v secret opts nxt] by simp
next
  case (Some sg)
  show ?thesis
  proof (cases "sg = []")
    case True
    with Some show ?thesis using handler_missing [of c v secret opts nxt] by simp
  next
    case nonempty: False
    show ?thesis
    proof (cases "req_text c")
      case (Inl err)
      with Some nonempty show ?thesis
        using handler_body_error [of c sg err v secret opts nxt] by simp
    next
      case (Inr body)
      show ?thesis
      proof (cases "v body sg secret opts")
        case (Inl reason)
        with Some nonempty Inr show ?thesis
          using handler_rejected [of c sg body v secret opts reason nxt] by simp
      next
        case inr: (Inr event)
        with Some nonempty Inr show ?thesis
          using handler_verified [of c sg body v secret opts event nxt] by simp
      qed
    qed
  qed
qed

lemma test_valid_run:
  "handler test_verifier SECRET [] (test_request (Some ''valid'')) nxt =
     \<lparr>outcome = fst (nxt ((test_request (Some ''valid''))
                  \<lparr>var := (var (test_request (Some ''valid'')))(''event'' \<mapsto> ''evt_test_webhook'')\<rparr>)),
      final = snd (nxt ((test_request (Some ''valid''))
                  \<lparr>var := (var (test_request (Some ''valid'')))(''event'' \<mapsto> ''evt_test_webhook'')\<rparr>)),
      effects = [GetHeader ''stripe-signature'', ReadText,
                 ConstructEvent ''evt_test_webhook'' ''valid'' SECRET [],
                 SetVar ''event'' ''evt_test_webhook'', CallNext]\<rparr>"
  by (rule handler_verified) (simp_all add: test_request_def test_verifier_def)

subsection \<open>Requests without a signature\<close>

text \<open>
  C2. When the request has no \<^verbatim>\<open>stripe-signature\<close> header, the constructed handler
  throws an \<^verbatim>\<open>HTTPException\<close> of status 400, whose response has status 400. The only
  call it has made is the read of the header: it has not read the body, not called the
  verifier and not called \<^verbatim>\<open>next\<close>, and the context is as it was.
\<close>

theorem C2_missing_header:
  assumes "stripeWebhookMiddleware v secret opts = Inr step"
    and "req_header c ''stripe-signature'' = None"
  shows "outcome (step c nxt) = Inl (HTTPException
           \<lparr>status = 400, message = ''Missing stripe-signature header'', cause = None\<rparr>) \<and>
         res_status (getResponse
           \<lparr>status = 400, message = ''Missing stripe-signature header'', cause = None\<rparr>) = 400 \<and>
         effects (step c nxt) = [GetHeader ''stripe-signature''] \<and>
         ReadText \<notin> set (effects (step c nxt)) \<and>
         (\<forall>b s k os. ConstructEvent b s k os \<notin> set (effects (step c nxt))) \<and>
         CallNext \<notin> set (effects (step c nxt)) \<and>
         final (step c nxt) = c"
proof -
  have "step = handler v secret opts"
    using assms(1) constructed_handler by blast
  then have "step c nxt =
     \<lparr>outcome = Inl (HTTPException
        \<lparr>status = 400, message = ''Missing stripe-signature header'', cause = None\<rparr>),
      final = c, effects = [GetHeader ''stripe-signature'']\<rparr>"
    using assms(2) handler_missing by metis
  then show ?thesis
    by (simp add: getResponse_def)
qed

theorem C2_missing_header_witness:
  "outcome (handler test_verifier SECRET [] (test_request None) next_ok) =
     Inl (HTTPException
       \<lparr>status = 400, message = ''Missing stripe-signature header'', cause = None\<rparr>) \<and>
   effects (handler test_verifier SECRET [] (test_request None) next_ok) =
     [GetHeader ''stripe-signature''] \<and>
   final (handler test_verifier SECRET [] (test_request None) next_ok) = test_request None"
proof -
  have "req_header (test_request None) ''stripe-signature'' = None"
    by (simp add: test_request_def)
  from C2_missing_header [OF test_constructed this, of next_ok]
  show ?thesis by blast
qed

text \<open>
  C10. A \<^verbatim>\<open>stripe-signature\<close> header whose value is the empty string is treated as a
  missing one: the same exception of status 400, after the same single call, with the
  body unread and neither the verifier nor \<^verbatim>\<open>next\<close> called; the execution is the one of
  the same request with the header removed.
\<close>

theorem C10_empty_header:
  assumes "stripeWebhookMiddleware v secret opts = Inr step"
    and "req_header c ''stripe-signature'' = Some []"
  shows "outcome (step c nxt) = Inl (HTTPException
           \<lparr>status = 400, message = ''Missing stripe-signature header'', cause = None\<rparr>) \<and>
         effects (step c nxt) = [GetHeader ''stripe-signature''] \<and>
         ReadText \<notin> set (effects (step c nxt)) \<and>
         (\<forall>b s k os. ConstructEvent b s k os \<notin> set (effects (step c nxt))) \<and>
         CallNext \<notin> set (effects (step c nxt)) \<and>
         final (step c nxt) = c \<and>
         outcome (step c nxt) =
           outcome (step (c\<lparr>req_header := (req_header c)(''stripe-signature'' := None)\<rparr>) nxt) \<and>
         effects (step c nxt) =
           effects (step (c\<lparr>req_header := (req_header c)(''stripe-signature'' := None)\<rparr>) nxt)"
proof -
  let ?c' = "c\<lparr>req_header := (req_header c)(''stripe-signature'' := None)\<rparr>"
  have step: "step = handler v secret opts"
    using assms(1) constructed_handler by blast
  have here: "step c nxt =
     \<lparr>outcome = Inl (HTTPException
        \<lparr>status = 400, message = ''Missing stripe-signature header'', cause = None\<rparr>),
      final = c, effects = [GetHeader ''stripe-signature'']\<rparr>"
    unfolding step using assms(2) by (intro handler_missing) simp
  have "req_header ?c' ''stripe-signature'' = None"
    by simp
  then have there: "step ?c' nxt =
     \<lparr>outcome = Inl (HTTPException
        \<lparr>status = 400, message = ''Missing stripe-signature header'', cause = None\<rparr>),
      final = ?c', effects = [GetHeader ''stripe-signature'']\<rparr>"
    unfolding step by (intro handler_missing) simp
  show ?thesis
    unfolding here there by simp
qed

theorem C10_empty_header_witness:
  "outcome (handler test_verifier SECRET [] (test_request (Some [])) next_ok) =
     Inl (HTTPException
       \<lparr>status = 400, message = ''Missing stripe-signature header'', cause = None\<rparr>) \<and>
   effects (handler test_verifier SECRET [] (test_request (Some [])) next_ok) =
     [GetHeader ''stripe-signature'']"
proof -
  have "req_header (test_request (Some [])) ''stripe-signature'' = Some []"
    by (simp add: test_request_def)
  from C10_empty_header [OF test_constructed this, of next_ok]
  show ?thesis by simp
qed

subsection \<open>Requests with a signature\<close>

text \<open>
  C3. When the header is present (and not empty), the body has been read and the
  verifier rejects with some error, the handler throws an \<^verbatim>\<open>HTTPException\<close> of status
  400 whose cause is that error. The response of the exception has status 400 and the
  fixed message as its body, whatever the cause is. \<^verbatim>\<open>next\<close> is not called, no variable
  of the context is set, and the context is as it was.
\<close>

theorem C3_verifier_rejects:
  assumes "stripeWebhookMiddleware v secret opts = Inr step"
    and "req_header c ''stripe-signature'' = Some sg" and "sg \<noteq> []"
    and "req_text c = Inr body"
    and "v body sg secret opts = Inl reason"
  shows "outcome (step c nxt) = Inl (HTTPException
           \<lparr>status = 400, message = ''Stripe webhook signature verification failed'',
            cause = Some reason\<rparr>) \<and>
         getResponse
           \<lparr>status = 400, message = ''Stripe webhook signature verification failed'',
            cause = Some reason\<rparr> =
           \<lparr>res_status = 400, res_body = ''Stripe webhook signature verification failed''\<rparr> \<and>
         CallNext \<notin> set (effects (step c nxt)) \<and>
         (\<forall>k e. SetVar k e \<notin> set (effects (step c nxt))) \<and>
         final (step c nxt) = c \<and>
         var (final (step c nxt)) ''event'' = var c ''event''"
proof -
  have "step = handler v secret opts"
    using assms(1) constructed_handler by blast
  then have "step c nxt =
     \<lparr>outcome = Inl (HTTPException
        \<lparr>status = 400, message = ''Stripe webhook signature verification failed'',
         cause = Some reason\<rparr>),
      final = c,
      effects = [GetHeader ''stripe-signature'', ReadText, ConstructEvent body sg secret opts]\<rparr>"
    using assms(2-5) handler_rejected by metis
  then show ?thesis
    by (simp add: getResponse_def)
qed

theorem C3_verifier_rejects_witness:
  "outcome (handler test_verifier SECRET [] (test_request (Some ''forged'')) next_ok) =
     Inl (HTTPException
       \<lparr>status = 400, message = ''Stripe webhook signature verification failed'',
        cause = Some ''No signatures found''\<rparr>) \<and>
   CallNext \<notin> set (effects (handler test_verifier SECRET [] (test_request (Some ''forged'')) next_ok)) \<and>
   var (final (handler test_verifier SECRET [] (test_request (Some ''forged'')) next_ok)) ''event'' =
     None"
proof -
  have h: "req_header (test_request (Some ''forged'')) ''stripe-signature'' = Some ''forged''"
    and n: "''forged'' \<noteq> []"
    and b: "req_text (test_request (Some ''forged'')) = Inr ''evt_test_webhook''"
    and r: "test_verifier ''evt_test_webhook'' ''forged'' SECRET [] = Inl ''No signatures found''"
    by (simp_all add: test_request_def test_verifier_def)
  have e: "var (test_request (Some ''forged'')) ''event'' = None"
    by (simp add: test_request_def)
  from C3_verifier_rejects [OF test_constructed h n b r, of next_ok] e
  show ?thesis by metis
qed

text \<open>
  C4. When the verifier is called (the header is present and not empty, the body has
  been read) and returns an event, the handler stores it in the context under
  \<^verbatim>\<open>event\<close> and then calls \<^verbatim>\<open>next\<close>: \<^verbatim>\<open>next\<close> runs on the context that differs from the
  incoming one in that variable only, the two calls are the last of the execution, in
  this order, and the handler settles as \<^verbatim>\<open>next\<close> does and leaves the context that
  \<^verbatim>\<open>next\<close> leaves.
\<close>

theorem C4_verifier_accepts:
  assumes "stripeWebhookMiddleware v secret opts = Inr step"
    and "req_header c ''stripe-signature'' = Some sg" and "sg \<noteq> []"
    and "req_text c = Inr body"
    and "v body sg secret opts = Inr event"
  shows "outcome (step c nxt) = fst (nxt (c\<lparr>var := (var c)(''event'' \<mapsto> event)\<rparr>)) \<and>
         final (step c nxt) = snd (nxt (c\<lparr>var := (var c)(''event'' \<mapsto> event)\<rparr>)) \<and>
         effects (step c nxt) =
           [GetHeader ''stripe-signature'', ReadText, ConstructEvent body sg secret opts,
            SetVar ''event'' event, CallNext] \<and>
         var (c\<lparr>var := (var c)(''event'' \<mapsto> event)\<rparr>) ''event'' = Some event"
proof -
  have "step = handler v secret opts"
    using assms(1) constructed_handler by blast
  then have "step c nxt =
     \<lparr>outcome = fst (nxt (c\<lparr>var := (var c)(''event'' \<mapsto> event)\<rparr>)),
      final = snd (nxt (c\<lparr>var := (var c)(''event'' \<mapsto> event)\<rparr>)),
      effects = [GetHeader ''stripe-signature'', ReadText, ConstructEvent body sg secret opts,
                 SetVar ''event'' event, CallNext]\<rparr>"
    using assms(2-5) handler_verified by metis
  then show ?thesis
    by simp
qed

theorem C4_verifier_accepts_witness:
  "outcome (handler test_verifier SECRET [] (test_request (Some ''valid'')) next_ok) = Inr () \<and>
   var (final (handler test_verifier SECRET [] (test_request (Some ''valid'')) next_ok)) ''event'' =
     Some ''evt_test_webhook'' \<and>
   effects (handler test_verifier SECRET [] (test_request (Some ''valid'')) next_ok) =
     [GetHeader ''stripe-signature'', ReadText,
      ConstructEvent ''evt_test_webhook'' ''valid'' SECRET [],
      SetVar ''event'' ''evt_test_webhook'', CallNext]"
proof -
  have h: "req_header (test_request (Some ''valid'')) ''stripe-signature'' = Some ''valid''"
    and n: "''valid'' \<noteq> []"
    and b: "req_text (test_request (Some ''valid'')) = Inr ''evt_test_webhook''"
    and r: "test_verifier ''evt_test_webhook'' ''valid'' SECRET [] = Inr ''evt_test_webhook''"
    by (simp_all add: test_request_def test_verifier_def)
  from C4_verifier_accepts [OF test_constructed h n b r, of next_ok]
  show ?thesis by (simp add: next_ok_def)
qed

subsection \<open>The event variable\<close>

text \<open>
  C5, as stated: after an execution the variable \<^verbatim>\<open>event\<close> is present in the context if
  and only if the handler settled without an error, also when \<^verbatim>\<open>next\<close> throws. This
  fails: the handler sets the variable before it calls \<^verbatim>\<open>next\<close>, so when the verifier
  accepts and \<^verbatim>\<open>next\<close> throws, the handler rejects with the error of \<^verbatim>\<open>next\<close> while the
  variable holds the event.
\<close>

theorem C5_event_slot_counterexample:
  "outcome (handler test_verifier SECRET [] (test_request (Some ''valid'')) next_throws) =
     Inl (Thrown ''downstream failure'') \<and>
   var (final (handler test_verifier SECRET [] (test_request (Some ''valid'')) next_throws))
     ''event'' = Some ''evt_test_webhook'' \<and>
   \<not> (var (final (handler test_verifier SECRET [] (test_request (Some ''valid'')) next_throws))
          ''event'' \<noteq> None \<longleftrightarrow>
        outcome (handler test_verifier SECRET [] (test_request (Some ''valid'')) next_throws) =
          Inr ())"
  by (simp add: test_valid_run next_throws_def)

text \<open>
  C5, amended. On a context in which \<^verbatim>\<open>event\<close> is not set, and with a downstream
  handler that leaves this variable alone, the variable is present after the execution
  if and only if the handler called \<^verbatim>\<open>next\<close>, which it does if and only if the header is
  present and not empty, the body was read and the verifier returned an event. An
  execution that settles without an error therefore leaves the variable present; the
  converse does not hold, since \<^verbatim>\<open>next\<close> may throw after the variable is set.
\<close>

theorem C5_event_slot_amended:
  assumes "stripeWebhookMiddleware v secret opts = Inr step"
    and "var c ''event'' = None"
    and "\<forall>c0. var (snd (nxt c0)) ''event'' = var c0 ''event''"
  shows "(var (final (step c nxt)) ''event'' \<noteq> None \<longleftrightarrow>
            CallNext \<in> set (effects (step c nxt))) \<and>
         (CallNext \<in> set (effects (step c nxt)) \<longleftrightarrow>
            (\<exists>sg body event. req_header c ''stripe-signature'' = Some sg \<and> sg \<noteq> [] \<and>
               req_text c = Inr body \<and> v body sg secret opts = Inr event)) \<and>
         (outcome (step c nxt) = Inr () \<longrightarrow> var (final (step c nxt)) ''event'' \<noteq> None)"
proof -
  have step: "step = handler v secret opts"
    using assms(1) constructed_handler by blast
  show ?thesis
    unfolding step
    using handler_cases [of v secret opts c nxt] assms(2,3)
    by (elim disjE exE conjE) simp_all
qed

theorem C5_event_slot_amended_witness:
  "var (final (handler test_verifier SECRET [] (test_request (Some ''valid'')) next_throws))
     ''event'' \<noteq> None \<and>
   CallNext \<in> set (effects (handler test_verifier SECRET [] (test_request (Some ''valid''))
     next_throws)) \<and>
   var (final (handler test_verifier SECRET [] (test_request (Some ''forged'')) next_throws))
     ''event'' = None"
proof -
  have e: "\<And>s. var (test_request s) ''event'' = None"
    by (simp add: test_request_def)
  have n: "\<forall>c0. var (snd (next_throws c0)) ''event'' = var c0 ''event''"
    by (simp add: next_throws_def)
  have ok: "\<exists>sg body event.
      req_header (test_request (Some ''valid'')) ''stripe-signature'' = Some sg \<and> sg \<noteq> [] \<and>
      req_text (test_request (Some ''valid'')) = Inr body \<and>
      test_verifier body sg SECRET [] = Inr event"
    by (simp add: test_request_def test_verifier_def)
  have bad: "\<not> (\<exists>sg body event.
      req_header (test_request (Some ''forged'')) ''stripe-signature'' = Some sg \<and> sg \<noteq> [] \<and>
      req_text (test_request (Some ''forged'')) = Inr body \<and>
      test_verifier body sg SECRET [] = Inr event)"
    by (simp add: test_request_def test_verifier_def)
  show ?thesis
    using C5_event_slot_amended [OF test_constructed e n, of "Some ''valid''"]
      C5_event_slot_amended [OF test_constructed e n, of "Some ''forged''"] ok bad
    by blast
qed

subsection \<open>Messages\<close>

text \<open>
  C6, as stated: the body of the error response is exactly "Missing signature header"
  when the header is absent and exactly "Signature verification failed" when the
  verifier rejects. The source's messages are other texts, and neither of the stated
  ones occurs in them.
\<close>

theorem C6_error_messages_counterexample:
  "outcome (handler test_verifier SECRET [] (test_request None) next_ok) =
     Inl (HTTPException
       \<lparr>status = 400, message = ''Missing stripe-signature header'', cause = None\<rparr>) \<and>
   res_body (getResponse
       \<lparr>status = 400, message = ''Missing stripe-signature header'', cause = None :: string option\<rparr>)
     \<noteq> ''Missing signature header'' \<and>
   \<not> sublist ''Missing signature header'' (res_body (getResponse
       \<lparr>status = 400, message = ''Missing stripe-signature header'',
        cause = None :: string option\<rparr>)) \<and>
   outcome (handler test_verifier SECRET [] (test_request (Some ''forged'')) next_ok) =
     Inl (HTTPException
       \<lparr>status = 400, message = ''Stripe webhook signature verification failed'',
        cause = Some ''No signatures found''\<rparr>) \<and>
   res_body (getResponse
       \<lparr>status = 400, message = ''Stripe webhook signature verification failed'',
        cause = Some ''No signatures found''\<rparr>)
     \<noteq> ''Signature verification failed'' \<and>
   \<not> sublist ''Signature verification failed'' (res_body (getResponse
       \<lparr>status = 400, message = ''Stripe webhook signature verification failed'',
        cause = Some ''No signatures found''\<rparr>))"
proof -
  have m: "handler test_verifier SECRET [] (test_request None) next_ok =
     \<lparr>outcome = Inl (HTTPException
        \<lparr>status = 400, message = ''Missing stripe-signature header'', cause = None\<rparr>),
      final = test_request None,
      effects = [GetHeader ''stripe-signature'']\<rparr>"
    by (rule handler_missing) (simp add: test_request_def)
  have r: "handler test_verifier SECRET [] (test_request (Some ''forged'')) next_ok =
     \<lparr>outcome = Inl (HTTPException
        \<lparr>status = 400, message = ''Stripe webhook signature verification failed'',
         cause = Some ''No signatures found''\<rparr>),
      final = test_request (Some ''forged''),
      effects = [GetHeader ''stripe-signature'', ReadText,
                 ConstructEvent ''evt_test_webhook'' ''forged'' SECRET []]\<rparr>"
    by (rule handler_rejected) (simp_all add: test_request_def test_verifier_def)
  show ?thesis
    unfolding m r by (simp add: getResponse_def sublist_code)
qed

text \<open>
  C6, amended. When the header is absent the exception's message, which is the body of
  its response, is exactly "Missing stripe-signature header"; when the verifier is
  called and rejects, it is exactly "Stripe webhook signature verification failed".
\<close>

theorem C6_error_messages_amended:
  assumes "stripeWebhookMiddleware v secret opts = Inr step"
  shows "(req_header c ''stripe-signature'' = None \<longrightarrow>
            (\<exists>h. outcome (step c nxt) = Inl (HTTPException h) \<and>
                 message h = ''Missing stripe-signature header'' \<and>
                 res_body (getResponse h) = ''Missing stripe-signature header'')) \<and>
         (\<forall>sg body reason.
            req_header c ''stripe-signature'' = Some sg \<and> sg \<noteq> [] \<and>
            req_text c = Inr body \<and> v body sg secret opts = Inl reason \<longrightarrow>
            (\<exists>h. outcome (step c nxt) = Inl (HTTPException h) \<and>
                 message h = ''Stripe webhook signature verification failed'' \<and>
                 res_body (getResponse h) = ''Stripe webhook signature verification failed''))"
proof -
  have step: "step = handler v secret opts"
    using assms constructed_handler by blast
  have absent: "\<exists>h. outcome (handler v secret opts c nxt) = Inl (HTTPException h) \<and>
        message h = ''Missing stripe-signature header'' \<and>
        res_body (getResponse h) = ''Missing stripe-signature header''"
    if "req_header c ''stripe-signature'' = None"
    using that by (simp add: handler_missing getResponse_def)
  have rejected: "\<exists>h. outcome (handler v secret opts c nxt) = Inl (HTTPException h) \<and>
        message h = ''Stripe webhook signature verification failed'' \<and>
        res_body (getResponse h) = ''Stripe webhook signature verification failed''"
    if "req_header c ''stripe-signature'' = Some sg" "sg \<noteq> []" "req_text c = Inr body"
      "v body sg secret opts = Inl reason" for sg body reason
    using that by (simp add: handler_rejected getResponse_def)
  show ?thesis
    unfolding step using absent rejected by blast
qed

theorem C6_error_messages_amended_witness:
  "(\<exists>h. outcome (handler test_verifier SECRET [] (test_request None) next_ok) =
          Inl (HTTPException h) \<and>
        res_body (getResponse h) = ''Missing stripe-signature header'') \<and>
   (\<exists>h. outcome (handler test_verifier SECRET [] (test_request (Some ''forged'')) next_ok) =
          Inl (HTTPException h) \<and>
        res_body (getResponse h) = ''Stripe webhook signature verification failed'')"
proof -
  have a: "req_header (test_request None) ''stripe-signature'' = None"
    by (simp add: test_request_def)
  have b: "req_header (test_request (Some ''forged'')) ''stripe-signature'' = Some ''forged'' \<and>
      ''forged'' \<noteq> [] \<and> req_text (test_request (Some ''forged'')) = Inr ''evt_test_webhook'' \<and>
      test_verifier ''evt_test_webhook'' ''forged'' SECRET [] = Inl ''No signatures found''"
    by (simp add: test_request_def test_verifier_def)
  show ?thesis
    using C6_error_messages_amended [OF test_constructed, of "test_request None" next_ok]
      C6_error_messages_amended [OF test_constructed, of "test_request (Some ''forged'')" next_ok]
      a b
    by blast
qed

subsection \<open>Status codes and the errors of the downstream handler\<close>

text \<open>
  C7. An execution that does not reach \<^verbatim>\<open>next\<close> ends with an \<^verbatim>\<open>HTTPException\<close> of the
  handler's own, whose status is 400 as is the status of its response, or with the
  error of the body reader, passed on as it is (no status is produced for it). An
  execution that reaches \<^verbatim>\<open>next\<close> settles exactly as \<^verbatim>\<open>next\<close> does on the context with
  the event stored: an error thrown by \<^verbatim>\<open>next\<close> is the error of the handler, unchanged.
\<close>

theorem C7_status_and_propagation:
  assumes "stripeWebhookMiddleware v secret opts = Inr step"
  shows "(CallNext \<notin> set (effects (step c nxt)) \<longrightarrow>
            (\<exists>h. outcome (step c nxt) = Inl (HTTPException h) \<and> status h = 400 \<and>
                 res_status (getResponse h) = 400) \<or>
            (\<exists>err. req_text c = Inl err \<and> outcome (step c nxt) = Inl (Thrown err))) \<and>
         (CallNext \<in> set (effects (step c nxt)) \<longrightarrow>
            (\<exists>event. outcome (step c nxt) = fst (nxt (c\<lparr>var := (var c)(''event'' \<mapsto> event)\<rparr>)) \<and>
                     final (step c nxt) = snd (nxt (c\<lparr>var := (var c)(''event'' \<mapsto> event)\<rparr>)))) \<and>
         (\<forall>sg body event err.
            req_header c ''stripe-signature'' = Some sg \<and> sg \<noteq> [] \<and>
            req_text c = Inr body \<and> v body sg secret opts = Inr event \<and>
            fst (nxt (c\<lparr>var := (var c)(''event'' \<mapsto> event)\<rparr>)) = Inl err \<longrightarrow>
            outcome (step c nxt) = Inl err)"
proof -
  have step: "step = handler v secret opts"
    using assms constructed_handler by blast
  have own: "CallNext \<notin> set (effects (handler v secret opts c nxt)) \<longrightarrow>
      (\<exists>h. outcome (handler v secret opts c nxt) = Inl (HTTPException h) \<and> status h = 400 \<and>
           res_status (getResponse h) = 400) \<or>
      (\<exists>err. req_text c = Inl err \<and> outcome (handler v secret opts c nxt) = Inl (Thrown err))"
    using handler_cases [of v secret opts c nxt]
    by (elim disjE exE conjE) (simp_all add: getResponse_def)
  have passed: "CallNext \<in> set (effects (handler v secret opts c nxt)) \<longrightarrow>
      (\<exists>event. outcome (handler v secret opts c nxt) =
                 fst (nxt (c\<lparr>var := (var c)(''event'' \<mapsto> event)\<rparr>)) \<and>
               final (handler v secret opts c nxt) =
                 snd (nxt (c\<lparr>var := (var c)(''event'' \<mapsto> event)\<rparr>)))"
    using handler_cases [of v secret opts c nxt]
    by (elim disjE exE conjE) auto
  have thrown: "outcome (handler v secret opts c nxt) = Inl err"
    if "req_header c ''stripe-signature'' = Some sg" "sg \<noteq> []" "req_text c = Inr body"
      "v body sg secret opts = Inr event"
      "fst (nxt (c\<lparr>var := (var c)(''event'' \<mapsto> event)\<rparr>)) = Inl err" for sg body event err
    using that by (simp add: handler_verified)
  show ?thesis
    unfolding step using own passed thrown by blast
qed

theorem C7_status_and_propagation_witness:
  "outcome (handler test_verifier SECRET [] (test_request (Some ''valid'')) next_throws) =
     Inl (Thrown ''downstream failure'')"
proof -
  have "req_header (test_request (Some ''valid'')) ''stripe-signature'' = Some ''valid'' \<and>
      ''valid'' \<noteq> [] \<and> req_text (test_request (Some ''valid'')) = Inr ''evt_test_webhook'' \<and>
      test_verifier ''evt_test_webhook'' ''valid'' SECRET [] = Inr ''evt_test_webhook'' \<and>
      fst (next_throws ((test_request (Some ''valid''))
        \<lparr>var := (var (test_request (Some ''valid'')))(''event'' \<mapsto> ''evt_test_webhook'')\<rparr>)) =
        Inl (Thrown ''downstream failure'')"
    by (simp add: test_request_def test_verifier_def next_throws_def)
  then show ?thesis
    using C7_status_and_propagation [OF test_constructed,
        of "test_request (Some ''valid'')" next_throws]
    by blast
qed

subsection \<open>Repeated executions\<close>

text \<open>
  C8. The verifier is a function of its arguments. Two executions of a constructed
  handler on requests with the same \<^verbatim>\<open>stripe-signature\<close> header and the same body make
  the same calls with the same arguments (so the verifier sees the same body, signature
  and secret, and the same event is stored), both reach \<^verbatim>\<open>next\<close> or neither does, and
  when they do not, they fail with the same error. Nothing else enters the verdict:
  not the other parts of the context, not the downstream handler, not an earlier
  execution.
\<close>

theorem C8_same_request_same_verdict:
  assumes "stripeWebhookMiddleware v secret opts = Inr step"
    and "req_header c1 ''stripe-signature'' = req_header c2 ''stripe-signature''"
    and "req_text c1 = req_text c2"
  shows "effects (step c1 n1) = effects (step c2 n2) \<and>
         (CallNext \<in> set (effects (step c1 n1)) \<longleftrightarrow> CallNext \<in> set (effects (step c2 n2))) \<and>
         (CallNext \<notin> set (effects (step c1 n1)) \<longrightarrow>
            outcome (step c1 n1) = outcome (step c2 n2))"
proof -
  have step: "step = handler v secret opts"
    using assms(1) constructed_handler by blast
  have eff: "effects (handler v secret opts c1 n1) = effects (handler v secret opts c2 n2)"
    using assms(2,3)
    by (simp add: handler_def Let_def split: option.splits sum.splits)
  have out: "CallNext \<notin> set (effects (handler v secret opts c1 n1)) \<longrightarrow>
      outcome (handler v secret opts c1 n1) = outcome (handler v secret opts c2 n2)"
    using assms(2,3)
    by (simp add: handler_def Let_def split: option.splits sum.splits)
  show ?thesis
    unfolding step using eff out by simp
qed

theorem C8_same_request_same_verdict_witness:
  "effects (handler test_verifier SECRET []
      (final (handler test_verifier SECRET [] (test_request (Some ''valid'')) next_ok))
      next_throws) =
   effects (handler test_verifier SECRET [] (test_request (Some ''valid'')) next_ok)"
proof -
  have f: "final (handler test_verifier SECRET [] (test_request (Some ''valid'')) next_ok) =
      (test_request (Some ''valid''))
        \<lparr>var := (var (test_request (Some ''valid'')))(''event'' \<mapsto> ''evt_test_webhook'')\<rparr>"
    by (simp add: test_valid_run next_ok_def)
  have h: "req_header (test_request (Some ''valid'')) ''stripe-signature'' =
      req_header (final (handler test_verifier SECRET [] (test_request (Some ''valid'')) next_ok))
        ''stripe-signature''"
    unfolding f by simp
  have b: "req_text (test_request (Some ''valid'')) =
      req_text (final (handler test_verifier SECRET [] (test_request (Some ''valid'')) next_ok))"
    unfolding f by simp
  from C8_same_request_same_verdict [OF test_constructed h b, of next_ok next_throws]
  show ?thesis by metis
qed

subsection \<open>The frame of the handler\<close>

text \<open>
  C9. Either the handler leaves the context as it found it and does not call \<^verbatim>\<open>next\<close>,
  or it hands to \<^verbatim>\<open>next\<close> the context in which the variable \<^verbatim>\<open>event\<close> is set and
  nothing else differs (the headers, the body, every other variable and every other
  part are the same), and leaves what \<^verbatim>\<open>next\<close> leaves. Every call the handler makes is
  the read of the \<^verbatim>\<open>stripe-signature\<close> header, the read of the body, the call of the
  verifier with the constructor's arguments, the write of \<^verbatim>\<open>event\<close>, or \<^verbatim>\<open>next\<close>.
\<close>

theorem C9_frame:
  assumes "stripeWebhookMiddleware v secret opts = Inr step"
  shows "((final (step c nxt) = c \<and> CallNext \<notin> set (effects (step c nxt))) \<or>
          (\<exists>event c'. c' = c\<lparr>var := (var c)(''event'' \<mapsto> event)\<rparr> \<and>
             outcome (step c nxt) = fst (nxt c') \<and> final (step c nxt) = snd (nxt c') \<and>
             req_header c' = req_header c \<and> req_text c' = req_text c \<and> other c' = other c \<and>
             (\<forall>k. k \<noteq> ''event'' \<longrightarrow> var c' k = var c k))) \<and>
         (\<forall>e \<in> set (effects (step c nxt)).
             e = GetHeader ''stripe-signature'' \<or> e = ReadText \<or> e = CallNext \<or>
             (\<exists>body sg. e = ConstructEvent body sg secret opts) \<or>
             (\<exists>event. e = SetVar ''event'' event))"
proof -
  have step: "step = handler v secret opts"
    using assms constructed_handler by blast
  have ctx: "(final (handler v secret opts c nxt) = c \<and>
        CallNext \<notin> set (effects (handler v secret opts c nxt))) \<or>
      (\<exists>event c'. c' = c\<lparr>var := (var c)(''event'' \<mapsto> event)\<rparr> \<and>
         outcome (handler v secret opts c nxt) = fst (nxt c') \<and>
         final (handler v secret opts c nxt) = snd (nxt c') \<and>
         req_header c' = req_header c \<and> req_text c' = req_text c \<and> other c' = other c \<and>
         (\<forall>k. k \<noteq> ''event'' \<longrightarrow> var c' k = var c k))"
    using handler_cases [of v secret opts c nxt]
    by (elim disjE exE conjE) auto
  have calls: "\<forall>e \<in> set (effects (handler v secret opts c nxt)).
      e = GetHeader ''stripe-signature'' \<or> e = ReadText \<or> e = CallNext \<or>
      (\<exists>body sg. e = ConstructEvent body sg secret opts) \<or>
      (\<exists>event. e = SetVar ''event'' event)"
    using handler_cases [of v secret opts c nxt]
    by (elim disjE exE conjE) simp_all
  show ?thesis
    unfolding step using ctx calls by blast
qed

theorem C9_frame_witness:
  "req_text (final (handler test_verifier SECRET [] (test_request (Some ''valid'')) next_ok)) =
     Inr ''evt_test_webhook'' \<and>
   var (final (handler test_verifier SECRET [] (test_request (Some ''valid'')) next_ok))
     ''user'' = None \<and>
   GetHeader ''authorization'' \<notin>
     set (effects (handler test_verifier SECRET [] (test_request (Some ''valid'')) next_ok))"
proof -
  have called: "CallNext \<in>
      set (effects (handler test_verifier SECRET [] (test_request (Some ''valid'')) next_ok))"
    by (simp add: test_valid_run)
  have req: "req_text (test_request (Some ''valid'')) = Inr ''evt_test_webhook''"
    and usr: "var (test_request (Some ''valid'')) ''user'' = None"
    by (simp_all add: test_request_def)
  have nxt: "\<And>c. snd (next_ok c) = c"
    by (simp add: next_ok_def)
  have ne: "''user'' \<noteq> ''event''"
    by simp
  from C9_frame [OF test_constructed, of "test_request (Some ''valid'')" next_ok]
  show ?thesis
    using called req usr nxt ne by (auto simp del: fun_upd_apply)
qed

end
